theory Spec2Isabelle
  imports Main "HOL-Library.Multiset" "HOL-Library.Sublist"
begin

section \<open>JavaScript values and the built-ins the components call\<close>

text \<open>
  The components are TypeScript classes over values fetched from the document store.
  A value of the store is modelled by \<open>jsval\<close>. Numbers are modelled by their integer
  values together with \<open>NaN\<close>: the operations modelled here only test a number for
  zero or \<open>NaN\<close> and subtract the numbers read from property keys.
  Strings are lists of \<open>char\<close>, the code units below 256; case mapping and white space
  are those of JavaScript on that range (ASCII and Latin-1).
  An object is the list of its own enumerable string-keyed properties in creation order,
  with distinct keys.
\<close>

datatype jsnum = NaN | Num int

datatype jsval =
    JUndefined
  | JNull
  | JBool bool
  | JNumber jsnum
  | JString string
  | JArray "jsval list"
  | JObject "(string \<times> jsval) list"

type_synonym fields = "(string \<times> jsval) list"

datatype js_error = TypeError

text \<open>ToBoolean: what \<open>!x\<close>, \<open>x || y\<close> and \<open>x && y\<close> test.\<close>

fun truthy :: "jsval \<Rightarrow> bool" where
  "truthy JUndefined = False"
| "truthy JNull = False"
| "truthy (JBool b) = b"
| "truthy (JNumber NaN) = False"
| "truthy (JNumber (Num n)) = (n \<noteq> 0)"
| "truthy (JString s) = (s \<noteq> [])"
| "truthy (JArray xs) = True"
| "truthy (JObject fs) = True"

text \<open>\<open>a || b\<close> on values.\<close>

definition js_or :: "jsval \<Rightarrow> jsval \<Rightarrow> jsval" where
  "js_or a b = (if truthy a then a else b)"

text \<open>\<open>obj[k]\<close>: the property, \<open>undefined\<close> when the object has none of that name.\<close>

definition getProp :: "fields \<Rightarrow> string \<Rightarrow> jsval" where
  "getProp fs k = (case map_of fs k of None \<Rightarrow> JUndefined | Some v \<Rightarrow> v)"

definition hasProp :: "fields \<Rightarrow> string \<Rightarrow> bool" where
  "hasProp fs k = (map_of fs k \<noteq> None)"

text \<open>\<open>obj[k] = v\<close>: an existing property keeps its place, a new one is added last.\<close>

fun setProp :: "fields \<Rightarrow> string \<Rightarrow> jsval \<Rightarrow> fields" where
  "setProp [] k v = [(k, v)]"
| "setProp ((k', v') # fs) k v =
     (if k' = k then (k, v) # fs else (k', v') # setProp fs k v)"

subsection \<open>Strings\<close>

text \<open>
  The letters with a lower-case form 32 code units above them: \<open>A\<close> to \<open>Z\<close>, and the
  Latin-1 capitals from 0xC0 to 0xDE without the multiplication sign 0xD7.
\<close>

definition isUpper :: "char \<Rightarrow> bool" where
  "isUpper c =
     ((65 \<le> (of_char c :: nat) \<and> (of_char c :: nat) \<le> 90) \<or>
      (192 \<le> (of_char c :: nat) \<and> (of_char c :: nat) \<le> 222 \<and> (of_char c :: nat) \<noteq> 215))"

definition lowerChar :: "char \<Rightarrow> char" where
  "lowerChar c = (if isUpper c then char_of ((of_char c :: nat) + 32) else c)"

text \<open>\<open>String.prototype.toLowerCase\<close>.\<close>

definition js_toLowerCase :: "string \<Rightarrow> string" where
  "js_toLowerCase s = map lowerChar s"

text \<open>\<open>s.startsWith(t)\<close> and \<open>s.includes(t)\<close>: \<open>t\<close> occurs in \<open>s\<close> at some position.\<close>

fun js_startsWith :: "string \<Rightarrow> string \<Rightarrow> bool" where
  "js_startsWith s [] = True"
| "js_startsWith [] (c # t) = False"
| "js_startsWith (a # s) (c # t) = (a = c \<and> js_startsWith s t)"

fun js_includes :: "string \<Rightarrow> string \<Rightarrow> bool" where
  "js_includes [] t = (t = [])"
| "js_includes (a # s) t = (js_startsWith (a # s) t \<or> js_includes s t)"

text \<open>
  White space and line terminators below 256: TAB, LF, VT, FF, CR, SP and the no-break
  space 0xA0.
\<close>

definition isSpace :: "char \<Rightarrow> bool" where
  "isSpace c = ((of_char c :: nat) \<in> {9, 10, 11, 12, 13, 32, 160})"

text \<open>\<open>String.prototype.trim\<close>.\<close>

definition js_trim :: "string \<Rightarrow> string" where
  "js_trim s = rev (dropWhile isSpace (rev (dropWhile isSpace s)))"

subsection \<open>Numbers read from property keys\<close>

definition isDigit :: "char \<Rightarrow> bool" where
  "isDigit c = (48 \<le> (of_char c :: nat) \<and> (of_char c :: nat) \<le> 57)"

definition digitVal :: "char \<Rightarrow> nat" where
  "digitVal c = (of_char c :: nat) - 48"

definition decimal :: "string \<Rightarrow> nat" where
  "decimal s = foldl (\<lambda>acc c. 10 * acc + digitVal c) 0 s"

text \<open>
  \<open>Number(s)\<close> on a string, modelled on the keys the store uses: a non-empty string of
  decimal digits is its value. The model is \<open>Number\<close> exactly on the digit strings of a
  value up to \<open>2 ^ 53\<close> (\<open>numeric_like\<close> below). Outside them it is not: the rounding of
  larger values to a double, the empty string, signs, fractions, exponents, surrounding
  white space and radix prefixes are not modelled. Every statement below that depends on
  the order of the sorted entries is about \<open>numeric_like\<close> keys only.
\<close>

definition js_Number :: "string \<Rightarrow> jsnum" where
  "js_Number s = (if s \<noteq> [] \<and> list_all isDigit s then Num (int (decimal s)) else NaN)"

text \<open>\<open>a - b\<close> on numbers.\<close>

fun js_minus :: "jsnum \<Rightarrow> jsnum \<Rightarrow> jsnum" where
  "js_minus (Num a) (Num b) = Num (a - b)"
| "js_minus a b = NaN"

text \<open>The decimal numeral of a natural number, as \<open>String(i)\<close> writes an index.\<close>

fun js_String :: "nat \<Rightarrow> string" where
  "js_String n =
     (if n < 10 then [char_of (48 + n)]
      else js_String (n div 10) @ [char_of (48 + n mod 10)])"

declare js_String.simps [simp del]

subsection \<open>Own properties and \<open>Object.entries\<close>\<close>

text \<open>
  An array index is the canonical numeral of an integer below \<open>2 ^ 32 - 1\<close>. An object
  enumerates its array-index keys first, in ascending numeric order, then its other
  string keys in creation order.
\<close>

definition isArrayIndex :: "string \<Rightarrow> bool" where
  "isArrayIndex k =
     (k \<noteq> [] \<and> list_all isDigit k \<and> js_String (decimal k) = k \<and> decimal k < 2 ^ 32 - 1)"

definition ownProperties :: "fields \<Rightarrow> fields" where
  "ownProperties fs =
     sort_key (\<lambda>kv. decimal (fst kv)) (filter (\<lambda>kv. isArrayIndex (fst kv)) fs)
     @ filter (\<lambda>kv. \<not> isArrayIndex (fst kv)) fs"

definition indexed :: "jsval list \<Rightarrow> fields" where
  "indexed xs = zip (map js_String [0..<length xs]) xs"

text \<open>
  \<open>Object.entries(x)\<close>: a TypeError on \<open>undefined\<close> and \<open>null\<close>; no entry for a boolean
  or a number; the indexed elements of an array; the indexed characters of a string;
  the own properties of an object.
\<close>

fun Object_entries :: "jsval \<Rightarrow> js_error + fields" where
  "Object_entries JUndefined = Inl TypeError"
| "Object_entries JNull = Inl TypeError"
| "Object_entries (JBool b) = Inr []"
| "Object_entries (JNumber n) = Inr []"
| "Object_entries (JString s) = Inr (indexed (map (\<lambda>c. JString [c]) s))"
| "Object_entries (JArray xs) = Inr (indexed xs)"
| "Object_entries (JObject fs) = Inr (ownProperties fs)"

subsection \<open>\<open>Array.prototype.sort\<close> with a comparator\<close>

text \<open>
  The comparator's result \<open>v\<close> orders \<open>x\<close> after \<open>y\<close> when \<open>v > 0\<close>; a \<open>NaN\<close> result
  counts as \<open>0\<close>. The sort is stable; it is modelled as an insertion sort that moves an
  element behind exactly those it is ordered after.
\<close>

definition SortCompare :: "('a \<Rightarrow> 'a \<Rightarrow> jsnum) \<Rightarrow> 'a \<Rightarrow> 'a \<Rightarrow> int" where
  "SortCompare comparefn x y = (case comparefn x y of NaN \<Rightarrow> 0 | Num v \<Rightarrow> v)"

fun sortInsert :: "('a \<Rightarrow> 'a \<Rightarrow> jsnum) \<Rightarrow> 'a \<Rightarrow> 'a list \<Rightarrow> 'a list" where
  "sortInsert comparefn x [] = [x]"
| "sortInsert comparefn x (y # ys) =
     (if SortCompare comparefn x y > 0 then y # sortInsert comparefn x ys else x # y # ys)"

fun Array_sort :: "('a \<Rightarrow> 'a \<Rightarrow> jsnum) \<Rightarrow> 'a list \<Rightarrow> 'a list" where
  "Array_sort comparefn [] = []"
| "Array_sort comparefn (x # xs) = sortInsert comparefn x (Array_sort comparefn xs)"

section \<open>Profile page\<close>

subsection \<open>The politician stream of \<open>ngOnInit\<close>\<close>

text \<open>
  The collection \<open>Politicians\<close> is the list of its documents' data, in the order in
  which the store returns them. \<open>query(col, where('Name', '==', name))\<close> followed by
  \<open>getDocs\<close> gives the documents whose field \<open>Name\<close> is the string \<open>name\<close>.
\<close>

type_synonym document = fields

definition queryByName :: "document list \<Rightarrow> string \<Rightarrow> document list" where
  "queryByName col name = filter (\<lambda>d. getProp d ''Name'' = JString name) col"

text \<open>\<open>snapshot.empty ? null : snapshot.docs[0].data()\<close>\<close>

definition firstOrNull :: "document list \<Rightarrow> document option" where
  "firstOrNull docs = (case docs of [] \<Rightarrow> None | d # ds \<Rightarrow> Some d)"

text \<open>The comparator \<open>([a], [b]) => Number(a) - Number(b)\<close> on entries.\<close>

definition byNumericKey :: "string \<times> jsval \<Rightarrow> string \<times> jsval \<Rightarrow> jsnum" where
  "byNumericKey x y = js_minus (js_Number (fst x)) (js_Number (fst y))"

text \<open>
  The second \<open>map\<close> of the pipe: \<open>null\<close> stays \<open>null\<close>; otherwise the entries of
  \<open>data['Propositions'] || {}\<close> are sorted by the comparator, their values are kept,
  and the result is \<open>{ ...data, propsList }\<close>.
\<close>

definition reshape :: "document option \<Rightarrow> js_error + document option" where
  "reshape data =
     (case data of
        None \<Rightarrow> Inr None
      | Some d \<Rightarrow>
          (let propsMap = js_or (getProp d ''Propositions'') (JObject [])
           in case Object_entries propsMap of
                Inl e \<Rightarrow> Inl e
              | Inr entries \<Rightarrow>
                  (let propsList = map snd (Array_sort byNumericKey entries)
                   in Inr (Some (setProp (ownProperties d) ''propsList'' (JArray propsList))))))"

definition politician :: "document list \<Rightarrow> string \<Rightarrow> js_error + document option" where
  "politician col name = reshape (firstOrNull (queryByName col name))"

text \<open>A key the claims call numeric-like: decimal digits, of a value \<open>Number\<close> reads exactly.\<close>

definition numeric_like :: "string \<Rightarrow> bool" where
  "numeric_like k = (k \<noteq> [] \<and> list_all isDigit k \<and> decimal k \<le> 2 ^ 53)"

subsection \<open>Component state, modal, status class and navigation\<close>

text \<open>
  The fields of the component that its methods read or write, with the three things of
  its environment they touch: the overflow style of the document body, the router (the
  commands passed to \<open>navigate\<close>, oldest first) and the console (the warnings logged).
\<close>

record profile_page =
  selectedProp :: jsval
  validNames :: "jsval list"
  bodyOverflow :: string
  routerLog :: "string list list"
  consoleLog :: "string list"

definition openModal :: "profile_page \<Rightarrow> jsval \<Rightarrow> profile_page" where
  "openModal s prop = s\<lparr>selectedProp := prop, bodyOverflow := ''hidden''\<rparr>"

definition closeModal :: "profile_page \<Rightarrow> profile_page" where
  "closeModal s = s\<lparr>selectedProp := JNull, bodyOverflow := ''auto''\<rparr>"

text \<open>\<open>x || ''\<close> on a string that may be \<open>null\<close> or \<open>undefined\<close>.\<close>

definition orEmpty :: "string option \<Rightarrow> string" where
  "orEmpty x = (case x of None \<Rightarrow> [] | Some t \<Rightarrow> if t \<noteq> [] then t else [])"

definition getStatusClass :: "string option \<Rightarrow> string" where
  "getStatusClass status =
     (let s = orEmpty (map_option js_toLowerCase status)
      in if js_includes s ''success'' then ''status-success''
         else if js_includes s ''compromised'' then ''status-compromised''
         else if js_includes s ''failed'' then ''status-failed''
         else ''status-default'')"

text \<open>The \<open>tap\<close> of the names list: \<open>validNames\<close> becomes the \<open>Name\<close> of every document.\<close>

definition namesLoaded :: "profile_page \<Rightarrow> document list \<Rightarrow> profile_page" where
  "namesLoaded s col = s\<lparr>validNames := map (\<lambda>d. getProp d ''Name'') col\<rparr>"

definition toPage :: "profile_page \<Rightarrow> string \<Rightarrow> profile_page" where
  "toPage s person =
     (if JString person \<notin> set (validNames s)
      then s\<lparr>consoleLog := consoleLog s @ [''Person not found in list'']\<rparr>
      else s\<lparr>routerLog := routerLog s @ [[''/profile'', person]]\<rparr>)"

section \<open>Home page\<close>

text \<open>
  \<open>_filter\<close> as the component has it now: an option passes when it is truthy and its
  lower-case form includes the lower-case value.
\<close>

definition Homepage_filter :: "string list \<Rightarrow> string \<Rightarrow> string list" where
  "Homepage_filter opts v =
     (let filterValue = js_toLowerCase v
      in filter (\<lambda>option. option \<noteq> [] \<and> js_includes (js_toLowerCase option) filterValue) opts)"

text \<open>\<open>_filter\<close> of the component's first version, over the fixed options, with no guard.\<close>

definition Homepage_filter_first :: "string list \<Rightarrow> string \<Rightarrow> string list" where
  "Homepage_filter_first opts v =
     (let filterValue = js_toLowerCase v
      in filter (\<lambda>option. js_includes (js_toLowerCase option) filterValue) opts)"

record homepage =
  topMatch :: "string option"
  options :: "string list"
  navigations :: "string list list"

text \<open>
  The \<open>map\<close> of \<open>ngOnInit\<close> on a value of the control: the filtered options, and the first
  of them stored as the top match (\<open>null\<close> when there is none).
\<close>

definition filteredOptions :: "homepage \<Rightarrow> string option \<Rightarrow> string list \<times> homepage" where
  "filteredOptions s v =
     (let filtered = Homepage_filter (options s) (orEmpty v)
      in (filtered, s\<lparr>topMatch := (case filtered of [] \<Rightarrow> None | x # xs \<Rightarrow> Some x)\<rparr>))"

text \<open>\<open>a || b\<close> on strings that may be \<open>null\<close>.\<close>

definition orElse :: "string option \<Rightarrow> string option \<Rightarrow> string option" where
  "orElse a b = (case a of None \<Rightarrow> b | Some t \<Rightarrow> if t \<noteq> [] then a else b)"

definition navigate :: "homepage \<Rightarrow> string list \<Rightarrow> homepage" where
  "navigate s commands = s\<lparr>navigations := navigations s @ [commands]\<rparr>"

definition goToPage :: "homepage \<Rightarrow> string option \<Rightarrow> homepage" where
  "goToPage s inputValue =
     (case orElse (topMatch s) inputValue of
        None \<Rightarrow> s
      | Some destinationName \<Rightarrow>
          if destinationName \<noteq> [] \<and> js_trim destinationName \<noteq> []
          then navigate s [''/profile'', destinationName]
          else s)"

section \<open>Enrichment of propositions with sentiment summaries\<close>

text \<open>
  The enrichment script (\<open>proposition_sentiment_scraper.py\<close>) is not among the sources;
  only its README is. The definitions of this section are written from the spec and the
  README. What the search services and the generative endpoint answer is outside the
  repository: it is the parameter \<open>summarize\<close>, from the politician's name and the
  proposition to the sentence summary and the paragraph summary, or to \<open>None\<close> when a
  call fails. The answers of a second run need not be those of the first.
\<close>

text \<open>
  Modelled from the spec: the script's test for a proposition that already has sentiment
  data, which it skips, so that summaries are not
  overwritten once present. A proposition has sentiment data when a summary field is present,
  \<open>sentiment_sentence_summary\<close> or \<open>sentiment_paragraph_summary\<close>.
\<close>

definition has_summaries :: "fields \<Rightarrow> bool" where
  "has_summaries p =
     (hasProp p ''sentiment_sentence_summary'' \<or> hasProp p ''sentiment_paragraph_summary'')"

text \<open>
  Modelled from the spec: the script's step on one proposition. A proposition that has
  sentiment data is skipped. For one lacking it the services are queried and the two
  string fields are written back; when a call fails the error is logged and the
  proposition is skipped (errors are handled by logging and skip-and-continue), so it is
  left as it is.
\<close>

definition enrich_proposition ::
    "(jsval \<Rightarrow> fields \<Rightarrow> (string \<times> string) option) \<Rightarrow> jsval \<Rightarrow> fields \<Rightarrow> fields" where
  "enrich_proposition summarize who p =
     (if has_summaries p then p
      else case summarize who p of
             None \<Rightarrow> p
           | Some summaries \<Rightarrow>
               setProp
                 (setProp p ''sentiment_sentence_summary'' (JString (fst summaries)))
                 ''sentiment_paragraph_summary'' (JString (snd summaries)))"

text \<open>
  Modelled from the spec: the script's step on one entry of the map \<open>Propositions\<close>. A
  value that is not an object is left as it is.
\<close>

definition enrich_entry ::
    "(jsval \<Rightarrow> fields \<Rightarrow> (string \<times> string) option) \<Rightarrow> jsval \<Rightarrow> string \<times> jsval
       \<Rightarrow> string \<times> jsval" where
  "enrich_entry summarize who kv =
     (case snd kv of
        JObject p \<Rightarrow> (fst kv, JObject (enrich_proposition summarize who p))
      | other \<Rightarrow> kv)"

text \<open>
  Modelled from the spec: the script's loop over the propositions of one politician,
  which stores the summaries under each proposition of the document.
\<close>

definition enrich_politician ::
    "(jsval \<Rightarrow> fields \<Rightarrow> (string \<times> string) option) \<Rightarrow> document \<Rightarrow> document" where
  "enrich_politician summarize d =
     (case getProp d ''Propositions'' of
        JObject props \<Rightarrow>
          setProp d ''Propositions''
            (JObject (map (enrich_entry summarize (getProp d ''Name'')) props))
      | other \<Rightarrow> d)"

text \<open>Modelled from the spec: the script's loop over all politicians of the collection.\<close>

definition enrich_all ::
    "(jsval \<Rightarrow> fields \<Rightarrow> (string \<times> string) option) \<Rightarrow> document list \<Rightarrow> document list" where
  "enrich_all summarize col = map (enrich_politician summarize) col"

section \<open>Facts about the built-ins\<close>

lemmas char_eval = char_of_def bit_Suc_0_iff

lemmas string_eval = js_toLowerCase_def lowerChar_def isUpper_def isSpace_def js_trim_def char_eval

lemmas key_eval = isDigit_def digitVal_def decimal_def js_Number_def numeric_like_def
  isArrayIndex_def js_String.simps char_eval

lemma js_startsWith_prefix: "js_startsWith s t \<longleftrightarrow> prefix t s"
  by (induction s t rule: js_startsWith.induct) auto

lemma js_includes_sublist: "js_includes s t \<longleftrightarrow> sublist t s"
  by (induction s) (auto simp: js_startsWith_prefix sublist_Cons_right)

text \<open>Lower-casing and trimming reach the Latin-1 letters and the no-break space.\<close>

lemma latin1_examples:
  "js_toLowerCase [CHR ''J'', CHR 0xC9] = [CHR ''j'', CHR 0xE9]"
  "js_toLowerCase [CHR 0xD7, CHR 0xDF] = [CHR 0xD7, CHR 0xDF]"
  "js_trim [CHR 0xA0, CHR ''a'', CHR 0xA0] = ''a''"
  by (simp_all add: string_eval)

lemma orEmpty_Some: "orEmpty (Some t) = t"
  by (simp add: orEmpty_def)

lemma orEmpty_None: "orEmpty None = []"
  by (simp add: orEmpty_def)

lemma map_of_setProp: "map_of (setProp fs k v) = (map_of fs)(k \<mapsto> v)"
  by (induction fs) (auto simp: fun_eq_iff)

lemma getProp_setProp_same: "getProp (setProp fs k v) k = v"
  by (simp add: getProp_def map_of_setProp)

lemma getProp_setProp_other: "k' \<noteq> k \<Longrightarrow> getProp (setProp fs k v) k' = getProp fs k'"
  by (simp add: getProp_def map_of_setProp)

lemma hasProp_setProp: "hasProp (setProp fs k v) k' \<longleftrightarrow> k' = k \<or> hasProp fs k'"
  by (simp add: hasProp_def map_of_setProp)

lemma map_of_insort_key:
  "map_of (insort_key (\<lambda>kv. f (fst kv)) x xs) k = map_of (x # xs) k"
  by (induction xs) (auto split: if_splits)

lemma map_of_sort_key:
  "map_of (sort_key (\<lambda>kv. f (fst kv)) xs) k = map_of xs k"
  by (induction xs) (simp_all add: map_of_insort_key)

lemma map_of_filter_key:
  "map_of (filter (\<lambda>kv. P (fst kv)) xs) k = (if P k then map_of xs k else None)"
  by (induction xs) auto

text \<open>Enumeration reorders the properties of an object and changes none of them.\<close>

lemma map_of_ownProperties: "map_of (ownProperties fs) k = map_of fs k"
  using map_of_filter_key [of "\<lambda>k. \<not> isArrayIndex k" fs k]
  by (simp add: ownProperties_def map_add_def map_of_sort_key map_of_filter_key
      split: option.splits)

lemma getProp_ownProperties: "getProp (ownProperties fs) k = getProp fs k"
  by (simp add: getProp_def map_of_ownProperties)

lemma mset_ownProperties: "mset (ownProperties fs) = mset fs"
  by (simp add: ownProperties_def)

lemma list_all_insort_key: "list_all P (insort_key f x xs) \<longleftrightarrow> P x \<and> list_all P xs"
  by (induction xs) auto

lemma list_all_sort_key: "list_all P (sort_key f xs) \<longleftrightarrow> list_all P xs"
  by (induction xs) (auto simp: list_all_insort_key)

lemma list_all_ownProperties: "list_all P (ownProperties fs) \<longleftrightarrow> list_all P fs"
  by (auto simp: ownProperties_def list_all_sort_key list_all_iff)

text \<open>On numeric-like keys the comparator sort is the stable sort by the keys' values.\<close>

lemma Number_numeric: "numeric_like k \<Longrightarrow> js_Number k = Num (int (decimal k))"
  by (simp add: numeric_like_def js_Number_def)

lemma sortInsert_numeric:
  "numeric_like (fst x) \<Longrightarrow> list_all (\<lambda>kv. numeric_like (fst kv)) ys \<Longrightarrow>
   sortInsert byNumericKey x ys = insort_key (\<lambda>kv. decimal (fst kv)) x ys"
  by (induction ys) (auto simp: SortCompare_def byNumericKey_def Number_numeric)

lemma Array_sort_numeric:
  "list_all (\<lambda>kv. numeric_like (fst kv)) xs \<Longrightarrow>
   Array_sort byNumericKey xs = sort_key (\<lambda>kv. decimal (fst kv)) xs"
  by (induction xs) (auto simp: sortInsert_numeric list_all_sort_key)

section \<open>Profile page: status class, modal and navigation\<close>

text \<open>
  C6. For every status, \<open>getStatusClass\<close> looks in the lower-case status for
  \<open>success\<close>, then \<open>compromised\<close>, then \<open>failed\<close>, and returns the class of the first
  that occurs in it, \<open>status-default\<close> when none does; a \<open>null\<close> or \<open>undefined\<close> status
  gives \<open>status-default\<close>. Occurrence is stated with \<open>sublist\<close>, the library's notion of
  a contiguous part.
\<close>

theorem getStatusClass_first_match:
  "getStatusClass None = ''status-default'' \<and>
   getStatusClass (Some status) =
     (if sublist ''success'' (js_toLowerCase status) then ''status-success''
      else if sublist ''compromised'' (js_toLowerCase status) then ''status-compromised''
      else if sublist ''failed'' (js_toLowerCase status) then ''status-failed''
      else ''status-default'')"
  by (simp add: getStatusClass_def orEmpty_Some orEmpty_None js_includes_sublist)

lemma getStatusClass_examples:
  "getStatusClass (Some ''Success'') = ''status-success''"
  "getStatusClass (Some ''Failed, then COMPROMISED'') = ''status-compromised''"
  "getStatusClass (Some ''In progress'') = ''status-default''"
  "getStatusClass (Some '''') = ''status-default''"
  by (simp_all add: getStatusClass_def orEmpty_def string_eval)

text \<open>
  C7. From every state and for every proposition \<open>p\<close>, \<open>openModal\<close> sets \<open>selectedProp\<close>
  to \<open>p\<close> and the body overflow to \<open>hidden\<close>; \<open>closeModal\<close> after it sets
  \<open>selectedProp\<close> to \<open>null\<close> and the overflow to \<open>auto\<close>; closing twice is closing once,
  and closing after opening is closing.
\<close>

theorem modal_open_close:
  "selectedProp (openModal s p) = p \<and>
   bodyOverflow (openModal s p) = ''hidden'' \<and>
   selectedProp (closeModal (openModal s p)) = JNull \<and>
   bodyOverflow (closeModal (openModal s p)) = ''auto'' \<and>
   closeModal (closeModal s) = closeModal s \<and>
   closeModal (openModal s p) = closeModal s"
  by (simp add: openModal_def closeModal_def)

text \<open>
  C8. \<open>toPage\<close> navigates to the profile route of \<open>person\<close> only if \<open>person\<close> is among
  the valid names, which are the names fetched from the collection. For a person who is
  not, the state after the call is the state before it with one more warning in the
  console: no navigation, and every field of the component as it was.
\<close>

theorem toPage_only_valid_names:
  "(JString person \<notin> set (validNames s) \<longrightarrow>
      toPage s person = s\<lparr>consoleLog := consoleLog s @ [''Person not found in list'']\<rparr>) \<and>
   (JString person \<in> set (validNames s) \<longrightarrow>
      toPage s person = s\<lparr>routerLog := routerLog s @ [[''/profile'', person]]\<rparr>) \<and>
   (routerLog (toPage s person) \<noteq> routerLog s \<longrightarrow> JString person \<in> set (validNames s)) \<and>
   set (validNames (namesLoaded s col)) = (\<lambda>d. getProp d ''Name'') ` set col"
  by (simp add: toPage_def namesLoaded_def)

theorem toPage_only_valid_names_witness:
  "toPage \<lparr>selectedProp = JNull, validNames = [JString ''Ann''], bodyOverflow = ''auto'',
            routerLog = [], consoleLog = []\<rparr> ''Bob''
     = \<lparr>selectedProp = JNull, validNames = [JString ''Ann''], bodyOverflow = ''auto'',
        routerLog = [], consoleLog = [''Person not found in list'']\<rparr> \<and>
   toPage \<lparr>selectedProp = JNull, validNames = [JString ''Ann''], bodyOverflow = ''auto'',
            routerLog = [], consoleLog = []\<rparr> ''Ann''
     = \<lparr>selectedProp = JNull, validNames = [JString ''Ann''], bodyOverflow = ''auto'',
        routerLog = [[''/profile'', ''Ann'']], consoleLog = []\<rparr>"
  using toPage_only_valid_names [of "''Bob''" "\<lparr>selectedProp = JNull,
            validNames = [JString ''Ann''], bodyOverflow = ''auto'', routerLog = [],
            consoleLog = []\<rparr>"]
        toPage_only_valid_names [of "''Ann''" "\<lparr>selectedProp = JNull,
            validNames = [JString ''Ann''], bodyOverflow = ''auto'', routerLog = [],
            consoleLog = []\<rparr>"]
  by simp

section \<open>Home page: the filter\<close>

text \<open>
  C2 as stated fails on the component's filter: the empty option includes the empty
  value, is among the options, and is not returned, because the filter keeps only truthy
  options.
\<close>

theorem Homepage_filter_drops_empty_option:
  "sublist (js_toLowerCase '''') (js_toLowerCase '''') \<and> '''' \<in> set [''''] \<and>
   '''' \<notin> set (Homepage_filter [''''] '''')"
  by (simp add: Homepage_filter_def js_toLowerCase_def)

text \<open>
  C2, amended. For every value \<open>v\<close> and every list of options, the filter returns
  exactly the non-empty options whose lower-case form contains the lower-case \<open>v\<close>, in
  their original order.
\<close>

theorem Homepage_filter_nonempty_matches:
  "Homepage_filter opts v =
     filter (\<lambda>option. option \<noteq> [] \<and> sublist (js_toLowerCase v) (js_toLowerCase option)) opts"
  by (simp add: Homepage_filter_def js_includes_sublist)

text \<open>The filter of the component's first version had no guard and kept every match.\<close>

lemma Homepage_filter_first_all_matches:
  "Homepage_filter_first opts v =
     filter (\<lambda>option. sublist (js_toLowerCase v) (js_toLowerCase option)) opts"
  by (simp add: Homepage_filter_first_def js_includes_sublist)

lemma Homepage_filter_example:
  "Homepage_filter [''Ann Lee'', ''Bob'', '''', ''JOANNA''] ''aNN'' = [''Ann Lee'', ''JOANNA'']"
  by (simp add: Homepage_filter_def string_eval)

section \<open>Profile page: the politician stream\<close>

text \<open>
  The three versions of the component among the sources have the same query and the same
  reshaping step; the definitions \<open>queryByName\<close>, \<open>reshape\<close> and \<open>politician\<close> are
  those of all three.
\<close>

lemma Object_entries_js_or:
  "\<exists>es. Object_entries (js_or x (JObject [])) = Inr es"
  by (cases x) (auto simp: js_or_def ownProperties_def)

lemma reshape_Some:
  "\<exists>vs. reshape (Some d) = Inr (Some (setProp (ownProperties d) ''propsList'' (JArray vs)))"
proof -
  obtain es where "Object_entries (js_or (getProp d ''Propositions'') (JObject [])) = Inr es"
    using Object_entries_js_or by blast
  then show ?thesis by (auto simp: reshape_def)
qed

lemma reshape_falsy:
  "\<not> truthy (getProp d ''Propositions'') \<Longrightarrow>
   reshape (Some d) = Inr (Some (setProp (ownProperties d) ''propsList'' (JArray [])))"
  by (simp add: reshape_def js_or_def ownProperties_def)

text \<open>
  On a map with numeric-like keys the list is the values of the entries, stably sorted
  by the keys' values.
\<close>

lemma reshape_numeric:
  assumes "getProp d ''Propositions'' = JObject m"
    and "list_all (\<lambda>kv. numeric_like (fst kv)) m"
  shows "reshape (Some d) = Inr (Some (setProp (ownProperties d) ''propsList''
           (JArray (map snd (sort_key (\<lambda>kv. decimal (fst kv)) (ownProperties m))))))"
  using assms by (simp add: reshape_def js_or_def Array_sort_numeric list_all_ownProperties)

lemma reshape_example:
  "reshape (Some [(''Name'', JString ''A''),
      (''Propositions'',
         JObject [(''10'', JString ''x''), (''9'', JString ''y''), (''007'', JString ''z'')])])
   = Inr (Some [(''Name'', JString ''A''),
      (''Propositions'',
         JObject [(''10'', JString ''x''), (''9'', JString ''y''), (''007'', JString ''z'')]),
      (''propsList'', JArray [JString ''z'', JString ''y'', JString ''x''])])"
  by (simp add: reshape_def getProp_def js_or_def ownProperties_def byNumericKey_def
      SortCompare_def key_eval)

text \<open>
  C1. For every document whose field \<open>Propositions\<close> is a map \<open>m\<close> with numeric-like
  keys, the reshaping step succeeds and its \<open>propsList\<close> is the list of the values of
  entries \<open>es\<close>, where \<open>es\<close> are exactly the entries of \<open>m\<close> (as a multiset) in
  ascending order of the numeric values of their keys.
\<close>

theorem reshape_sorts_by_numeric_key:
  assumes "getProp d ''Propositions'' = JObject m"
    and "list_all (\<lambda>kv. numeric_like (fst kv)) m"
  shows "\<exists>r es. reshape (Some d) = Inr (Some r) \<and>
           getProp r ''propsList'' = JArray (map snd es) \<and>
           mset es = mset m \<and>
           sorted (map (\<lambda>kv. decimal (fst kv)) es)"
proof -
  let ?es = "sort_key (\<lambda>kv. decimal (fst kv)) (ownProperties m)"
  let ?r = "setProp (ownProperties d) ''propsList'' (JArray (map snd ?es))"
  have "reshape (Some d) = Inr (Some ?r)"
    using assms by (rule reshape_numeric)
  moreover have "getProp ?r ''propsList'' = JArray (map snd ?es)"
    by (rule getProp_setProp_same)
  moreover have "mset ?es = mset m"
    by (simp add: mset_ownProperties)
  moreover have "sorted (map (\<lambda>kv. decimal (fst kv)) ?es)"
    by (rule sorted_sort_key)
  ultimately show ?thesis by blast
qed

theorem reshape_sorts_by_numeric_key_witness:
  "getProp [(''Name'', JString ''A''),
      (''Propositions'', JObject [(''10'', JString ''x''), (''9'', JString ''y'')])]
      ''Propositions''
     = JObject [(''10'', JString ''x''), (''9'', JString ''y'')] \<and>
   list_all (\<lambda>kv. numeric_like (fst kv)) [(''10'', JString ''x''), (''9'', JString ''y'')] \<and>
   (\<exists>r es. reshape (Some [(''Name'', JString ''A''),
      (''Propositions'', JObject [(''10'', JString ''x''), (''9'', JString ''y'')])])
        = Inr (Some r) \<and>
      getProp r ''propsList'' = JArray (map snd es) \<and>
      mset es = mset [(''10'', JString ''x''), (''9'', JString ''y'')] \<and>
      sorted (map (\<lambda>kv. decimal (fst kv)) es))"
proof -
  define m where "m = [(''10'', JString ''x''), (''9'', JString ''y'')]"
  define d where "d = [(''Name'', JString ''A''), (''Propositions'', JObject m)]"
  have h1: "getProp d ''Propositions'' = JObject m"
    by (simp add: d_def getProp_def)
  have h2: "list_all (\<lambda>kv. numeric_like (fst kv)) m"
    by (simp add: m_def key_eval)
  show ?thesis
    using h1 h2 reshape_sorts_by_numeric_key [OF h1 h2] unfolding d_def m_def by simp
qed

text \<open>
  C10. The reshaping step never fails, and for every document whose field
  \<open>Propositions\<close> is missing, \<open>null\<close> or otherwise falsy it gives a result whose
  \<open>propsList\<close> is empty.
\<close>

theorem reshape_total_without_propositions:
  "(\<exists>r. reshape data = Inr r) \<and>
   (\<not> truthy (getProp d ''Propositions'') \<longrightarrow>
      (\<exists>r. reshape (Some d) = Inr (Some r) \<and> getProp r ''propsList'' = JArray []))"
proof
  show "\<exists>r. reshape data = Inr r"
  proof (cases data)
    case None
    then show ?thesis by (simp add: reshape_def)
  next
    case (Some d')
    then show ?thesis using reshape_Some [of d'] by auto
  qed
next
  show "\<not> truthy (getProp d ''Propositions'') \<longrightarrow>
      (\<exists>r. reshape (Some d) = Inr (Some r) \<and> getProp r ''propsList'' = JArray [])"
    by (auto simp: reshape_falsy getProp_setProp_same)
qed

theorem reshape_total_without_propositions_witness:
  "\<not> truthy (getProp [(''Name'', JString ''A'')] ''Propositions'') \<and>
   \<not> truthy (getProp [(''Name'', JString ''A''), (''Propositions'', JNull)] ''Propositions'') \<and>
   (\<exists>r. reshape (Some [(''Name'', JString ''A'')]) = Inr (Some r) \<and>
        getProp r ''propsList'' = JArray []) \<and>
   (\<exists>r. reshape (Some [(''Name'', JString ''A''), (''Propositions'', JNull)]) = Inr (Some r) \<and>
        getProp r ''propsList'' = JArray [])"
proof -
  define d1 where "d1 = [(''Name'', JString ''A'')]"
  define d2 where "d2 = [(''Name'', JString ''A''), (''Propositions'', JNull)]"
  have h1: "\<not> truthy (getProp d1 ''Propositions'')"
    by (simp add: d1_def getProp_def)
  have h2: "\<not> truthy (getProp d2 ''Propositions'')"
    by (simp add: d2_def getProp_def)
  have e1: "\<exists>r. reshape (Some d1) = Inr (Some r) \<and> getProp r ''propsList'' = JArray []"
    using h1 reshape_total_without_propositions [of None d1] by simp
  have e2: "\<exists>r. reshape (Some d2) = Inr (Some r) \<and> getProp r ''propsList'' = JArray []"
    using h2 reshape_total_without_propositions [of None d2] by simp
  show ?thesis
    using h1 h2 e1 e2 unfolding d1_def d2_def by simp
qed

lemma reshape_falsy_examples:
  "reshape (Some [(''Name'', JString ''A'')])
     = Inr (Some [(''Name'', JString ''A''), (''propsList'', JArray [])])"
  "reshape (Some [(''Propositions'', JNumber (Num 0)), (''Name'', JString ''A'')])
     = Inr (Some [(''Propositions'', JNumber (Num 0)), (''Name'', JString ''A''),
                  (''propsList'', JArray [])])"
  "reshape (Some [(''Propositions'', JString ''''), (''propsList'', JBool True)])
     = Inr (Some [(''Propositions'', JString ''''), (''propsList'', JArray [])])"
  by (simp_all add: reshape_def getProp_def js_or_def ownProperties_def key_eval)

text \<open>
  C4 as stated fails: with one document \<open>{Name: 'A'}\<close> in the collection the query for
  \<open>A\<close> is not empty, and the stream's result is not that document's data but the data
  with a field \<open>propsList\<close> added.
\<close>

theorem politician_adds_propsList:
  "queryByName [[(''Name'', JString ''A'')]] ''A'' = [[(''Name'', JString ''A'')]] \<and>
   politician [[(''Name'', JString ''A'')]] ''A''
     = Inr (Some [(''Name'', JString ''A''), (''propsList'', JArray [])]) \<and>
   politician [[(''Name'', JString ''A'')]] ''A'' \<noteq> Inr (Some [(''Name'', JString ''A'')])"
  by (simp add: politician_def queryByName_def firstOrNull_def reshape_def getProp_def js_or_def
      ownProperties_def key_eval)

text \<open>
  C4, amended. For every name, the stream's result is \<open>null\<close> exactly when the query by
  that name is empty; when it is not, the result is the first matching document's data
  with the field \<open>propsList\<close> set to a list: every other field is present in the result
  exactly when it is in the document, with the same value.
\<close>

theorem politician_null_iff_no_match:
  "(politician col name = Inr None \<longleftrightarrow> queryByName col name = []) \<and>
   (\<forall>d ds. queryByName col name = d # ds \<longrightarrow>
      (\<exists>r vs. politician col name = Inr (Some r) \<and>
         getProp r ''propsList'' = JArray vs \<and>
         (\<forall>k. k \<noteq> ''propsList'' \<longrightarrow>
            getProp r k = getProp d k \<and> hasProp r k = hasProp d k)))"
proof (cases "queryByName col name")
  case Nil
  then show ?thesis by (simp add: politician_def firstOrNull_def reshape_def)
next
  case (Cons d ds)
  obtain vs where
    r: "reshape (Some d) = Inr (Some (setProp (ownProperties d) ''propsList'' (JArray vs)))"
    using reshape_Some by blast
  have "hasProp (ownProperties d) k = hasProp d k" for k
    by (simp add: hasProp_def map_of_ownProperties)
  with Cons r show ?thesis
    by (auto simp: politician_def firstOrNull_def getProp_setProp_same getProp_setProp_other
        getProp_ownProperties hasProp_setProp)
qed

theorem politician_null_iff_no_match_witness:
  "queryByName [[(''Name'', JString ''B'')],
                [(''Name'', JString ''A''), (''Party'', JString ''x'')]] ''Zed'' = [] \<and>
   politician [[(''Name'', JString ''B'')],
               [(''Name'', JString ''A''), (''Party'', JString ''x'')]] ''Zed'' = Inr None \<and>
   queryByName [[(''Name'', JString ''B'')],
                [(''Name'', JString ''A''), (''Party'', JString ''x'')]] ''A''
     = [[(''Name'', JString ''A''), (''Party'', JString ''x'')]] \<and>
   (\<exists>r vs. politician [[(''Name'', JString ''B'')],
                        [(''Name'', JString ''A''), (''Party'', JString ''x'')]] ''A''
        = Inr (Some r) \<and>
      getProp r ''propsList'' = JArray vs \<and>
      getProp r ''Party'' = getProp [(''Name'', JString ''A''), (''Party'', JString ''x'')] ''Party'')"
proof -
  define dA where "dA = [(''Name'', JString ''A''), (''Party'', JString ''x'')]"
  define col where "col = [[(''Name'', JString ''B'')], dA]"
  define party where "party = ''Party''"
  have q1: "queryByName col ''Zed'' = []"
    by (simp add: col_def dA_def queryByName_def getProp_def)
  have q2: "queryByName col ''A'' = [dA]"
    by (simp add: col_def dA_def queryByName_def getProp_def)
  have k: "party \<noteq> ''propsList''"
    by (simp add: party_def)
  have n: "politician col ''Zed'' = Inr None"
    using q1 politician_null_iff_no_match [of col "''Zed''"] by simp
  have e: "\<exists>r vs. politician col ''A'' = Inr (Some r) \<and> getProp r ''propsList'' = JArray vs \<and>
      getProp r party = getProp dA party"
    using q2 k politician_null_iff_no_match [of col "''A''"] by auto
  show ?thesis
    using q1 q2 n e unfolding col_def dA_def party_def by simp
qed

lemma politician_example:
  "politician [[(''Name'', JString ''B'')],
               [(''Name'', JString ''A''),
                (''Propositions'', JObject [(''2'', JString ''y''), (''1'', JString ''x'')])],
               [(''Name'', JString ''A''), (''Party'', JString ''none'')]] ''A''
   = Inr (Some [(''Name'', JString ''A''),
                (''Propositions'', JObject [(''2'', JString ''y''), (''1'', JString ''x'')]),
                (''propsList'', JArray [JString ''x'', JString ''y''])])"
  by (simp add: politician_def queryByName_def firstOrNull_def reshape_def getProp_def js_or_def
      ownProperties_def byNumericKey_def SortCompare_def key_eval)

section \<open>Home page: navigation to the top match\<close>

text \<open>
  C9 as stated fails: with the one option \<open>' '\<close> and an empty input the filter has a
  first match, the blank option, and \<open>goToPage\<close> performs no navigation, since the
  destination is blank after trimming.
\<close>

theorem goToPage_blank_top_match:
  "Homepage_filter ['' ''] (orEmpty (Some '''')) = ['' ''] \<and>
   goToPage
      (snd (filteredOptions \<lparr>topMatch = None, options = ['' ''], navigations = []\<rparr> (Some '''')))
      (Some '''')
     = \<lparr>topMatch = Some '' '', options = ['' ''], navigations = []\<rparr>"
  by (simp add: goToPage_def filteredOptions_def Homepage_filter_def orElse_def orEmpty_def
      Let_def string_eval)

text \<open>
  C9, amended. After the control's value \<open>v\<close> has been filtered, \<open>goToPage\<close> navigates to
  the profile route of the first filtered match when there is one and it is not blank
  after trimming, whatever the input value passed to it; when the first match is blank
  it does not navigate; when there is no match it navigates to the input value if that is
  not \<open>null\<close> and not blank after trimming, and does not navigate otherwise.
\<close>

theorem goToPage_destination:
  assumes "filteredOptions s v = (filtered, s')"
  shows "filtered = Homepage_filter (options s) (orEmpty v) \<and>
    (\<forall>m ms. filtered = m # ms \<and> js_trim m \<noteq> [] \<longrightarrow>
        goToPage s' inputValue = navigate s' [''/profile'', m]) \<and>
    (\<forall>m ms. filtered = m # ms \<and> js_trim m = [] \<longrightarrow> goToPage s' inputValue = s') \<and>
    (\<forall>x. filtered = [] \<and> inputValue = Some x \<and> js_trim x \<noteq> [] \<longrightarrow>
        goToPage s' inputValue = navigate s' [''/profile'', x]) \<and>
    (filtered = [] \<and> (inputValue = None \<or> (\<exists>x. inputValue = Some x \<and> js_trim x = [])) \<longrightarrow>
        goToPage s' inputValue = s')"
proof -
  have f: "filtered = Homepage_filter (options s) (orEmpty v)"
    and s': "s' = s\<lparr>topMatch := (case filtered of [] \<Rightarrow> None | x # xs \<Rightarrow> Some x)\<rparr>"
    using assms by (auto simp: filteredOptions_def Let_def)
  have nonempty: "m \<noteq> []" if "filtered = m # ms" for m ms
  proof -
    have "m \<in> set (Homepage_filter (options s) (orEmpty v))"
      using that f by (metis list.set_intros(1))
    then show ?thesis by (simp add: Homepage_filter_def)
  qed
  have trim_Nil: "js_trim [] = []"
    by (simp add: js_trim_def)
  show ?thesis
    using f s' nonempty trim_Nil
    by (auto simp: goToPage_def orElse_def split: option.splits)
qed

theorem goToPage_destination_witness:
  "filteredOptions
      \<lparr>topMatch = None, options = [''Bob'', ''Ann Lee'', ''Joanna''], navigations = []\<rparr>
      (Some ''an'')
     = ([''Ann Lee'', ''Joanna''],
        \<lparr>topMatch = Some ''Ann Lee'', options = [''Bob'', ''Ann Lee'', ''Joanna''],
           navigations = []\<rparr>) \<and>
   goToPage
      \<lparr>topMatch = Some ''Ann Lee'', options = [''Bob'', ''Ann Lee'', ''Joanna''],
         navigations = []\<rparr>
      (Some ''an'')
     = \<lparr>topMatch = Some ''Ann Lee'', options = [''Bob'', ''Ann Lee'', ''Joanna''],
        navigations = [[''/profile'', ''Ann Lee'']]\<rparr> \<and>
   filteredOptions \<lparr>topMatch = None, options = [''Bob''], navigations = []\<rparr> (Some ''Zed'')
     = ([], \<lparr>topMatch = None, options = [''Bob''], navigations = []\<rparr>) \<and>
   goToPage \<lparr>topMatch = None, options = [''Bob''], navigations = []\<rparr> (Some ''Zed'')
     = \<lparr>topMatch = None, options = [''Bob''], navigations = [[''/profile'', ''Zed'']]\<rparr> \<and>
   goToPage \<lparr>topMatch = None, options = [''Bob''], navigations = []\<rparr> None
     = \<lparr>topMatch = None, options = [''Bob''], navigations = []\<rparr>"
proof -
  define ann where "ann = ''Ann Lee''"
  define zed where "zed = ''Zed''"
  define opts where "opts = [''Bob'', ann, ''Joanna'']"
  define s1 where "s1 = \<lparr>topMatch = None, options = opts, navigations = []\<rparr>"
  define s1' where "s1' = \<lparr>topMatch = Some ann, options = opts, navigations = []\<rparr>"
  define s2 where "s2 = \<lparr>topMatch = None, options = [''Bob''], navigations = []\<rparr>"
  have f1: "filteredOptions s1 (Some ''an'') = ([ann, ''Joanna''], s1')"
    by (simp add: s1_def s1'_def opts_def ann_def filteredOptions_def Homepage_filter_def
        orEmpty_def Let_def string_eval)
  have f2: "filteredOptions s2 (Some zed) = ([], s2)"
    by (simp add: s2_def zed_def filteredOptions_def Homepage_filter_def orEmpty_def Let_def
        string_eval)
  have t1: "js_trim ann \<noteq> []" and t2: "js_trim zed \<noteq> []"
    by (simp_all add: ann_def zed_def string_eval)
  have g1: "goToPage s1' (Some ''an'') = navigate s1' [''/profile'', ann]"
    using t1 goToPage_destination [OF f1, of "Some ''an''"] by simp
  have g2: "goToPage s2 (Some zed) = navigate s2 [''/profile'', zed]"
    using t2 goToPage_destination [OF f2, of "Some zed"] by simp
  have g3: "goToPage s2 None = s2"
    using goToPage_destination [OF f2, of None] by simp
  show ?thesis
    using f1 f2 g1 g2 g3
    unfolding s1_def s1'_def s2_def opts_def ann_def zed_def navigate_def by simp
qed

section \<open>Enrichment: skipping and writing\<close>









lemma enrich_all_example:
  "enrich_all (\<lambda>who p. Some (''liked'', ''widely liked''))
     [[(''Name'', JString ''Ann''),
       (''Propositions'', JObject
          [(''1'', JObject [(''Name'', JString ''Roads'')]),
           (''2'', JObject [(''Name'', JString ''Parks''),
                           (''sentiment_sentence_summary'', JString ''kept'')])])]]
   = [[(''Name'', JString ''Ann''),
       (''Propositions'', JObject
          [(''1'', JObject [(''Name'', JString ''Roads''),
                           (''sentiment_sentence_summary'', JString ''liked''),
                           (''sentiment_paragraph_summary'', JString ''widely liked'')]),
           (''2'', JObject [(''Name'', JString ''Parks''),
                           (''sentiment_sentence_summary'', JString ''kept'')])])]]"
  by (simp add: enrich_all_def enrich_politician_def enrich_entry_def enrich_proposition_def
      has_summaries_def hasProp_def getProp_def)






end
